theory Spec2Isabelle
  imports Main "HOL-Library.Sublist"
begin

section \<open>The bundler configuration (webpack.config.js)\<close>

text \<open>
  The file exports one object literal. Its only computed value is
  \<^verbatim>\<open>path.resolve(__dirname, "static", "dist", "js")\<close>: the \<^verbatim>\<open>path\<close> module comes from
  \<^verbatim>\<open>require("path")\<close> and \<^verbatim>\<open>__dirname\<close> from the module wrapper, so both are parameters
  of the embedding.
\<close>

subsection \<open>Regular expression literals\<close>

text \<open>
  The one regular expression literal of the file, \<^verbatim>\<open>/\.jsx$/\<close>, is a sequence of literal
  characters followed by the end-of-input assertion (no flag is given, so \<^verbatim>\<open>$\<close> is not a
  line end). \<open>regexp_test\<close> is \<^verbatim>\<open>RegExp.prototype.test\<close>: a match may start at any index
  of the subject, the end included.
\<close>

datatype re_atom = Lit char | EndOfInput

type_synonym regexp = "re_atom list"

fun match_here :: "regexp \<Rightarrow> string \<Rightarrow> bool" where
  "match_here [] s = True"
| "match_here (EndOfInput # r) s = (s = [] \<and> match_here r s)"
| "match_here (Lit c # r) [] = False"
| "match_here (Lit c # r) (x # xs) = (c = x \<and> match_here r xs)"

fun regexp_test :: "regexp \<Rightarrow> string \<Rightarrow> bool" where
  "regexp_test r [] = match_here r []"
| "regexp_test r (x # xs) = (match_here r (x # xs) \<or> regexp_test r xs)"

subsection \<open>The exported object\<close>

text \<open>
  Field names follow the source; \<^verbatim>\<open>output\<close>, \<^verbatim>\<open>resolve\<close> and \<^verbatim>\<open>module\<close> of the top-level
  object carry the suffix \<open>_opts\<close>, since \<open>output\<close> is reserved and \<open>resolve\<close> is also the
  function of the \<^verbatim>\<open>path\<close> module. The \<^verbatim>\<open>entry\<close> object is an association list in the order
  of the literal.
\<close>

record path_module =
  resolve :: "string list \<Rightarrow> string"

record rule_set_rule =
  test :: regexp
  loader :: string

record output_options =
  path :: string
  filename :: string

record resolve_options =
  extensions :: "string list"

record module_options =
  rules :: "rule_set_rule list"

record configuration =
  entry :: "(string \<times> string) list"
  output_opts :: output_options
  resolve_opts :: resolve_options
  module_opts :: module_options

definition module_exports :: "path_module \<Rightarrow> string \<Rightarrow> configuration" where
  "module_exports path_mod dirname =
     \<lparr> entry =
         [ (''builder'', ''./static/src/js/builder/index.jsx''),
           (''codelist'', ''./static/src/js/codelist.js''),
           (''codelist-version'', ''./static/src/js/codelist-version.js''),
           (''tree'', ''./static/src/js/tree/index.jsx'') ],
       output_opts =
         \<lparr> path = resolve path_mod [dirname, ''static'', ''dist'', ''js''],
           filename = ''[name].bundle.js'' \<rparr>,
       resolve_opts = \<lparr> extensions = [''.js'', ''.jsx''] \<rparr>,
       module_opts =
         \<lparr> rules =
             [ \<lparr> test = [Lit CHR ''.'', Lit CHR ''j'', Lit CHR ''s'', Lit CHR ''x'', EndOfInput],
                 loader = ''babel-loader'' \<rparr> ] \<rparr> \<rparr>"

subsection \<open>How the bundler reads the object\<close>

text \<open>
  A rule applies to a resource when its \<^verbatim>\<open>test\<close> matches the resource's path; the loaders
  of a resource are those of the rules that apply, in the order of \<^verbatim>\<open>module.rules\<close>.
  An entry is looked up by its bundle name, as a property of the \<^verbatim>\<open>entry\<close> object.
\<close>

definition rule_applies :: "rule_set_rule \<Rightarrow> string \<Rightarrow> bool" where
  "rule_applies r resource = regexp_test (test r) resource"

definition matching_rules :: "configuration \<Rightarrow> string \<Rightarrow> rule_set_rule list" where
  "matching_rules cfg resource = filter (\<lambda>r. rule_applies r resource) (rules (module_opts cfg))"

definition loaders_for :: "configuration \<Rightarrow> string \<Rightarrow> string list" where
  "loaders_for cfg resource = map loader (matching_rules cfg resource)"

definition entry_source :: "configuration \<Rightarrow> string \<Rightarrow> string option" where
  "entry_source cfg name = map_of (entry cfg) name"

definition bundle_names :: "configuration \<Rightarrow> string list" where
  "bundle_names cfg = map fst (entry cfg)"

subsection \<open>A POSIX path module\<close>

text \<open>
  \<open>posix_resolve\<close> follows \<^verbatim>\<open>path.posix.resolve\<close> of the runtime: the arguments are taken
  from the right until one is absolute (the working directory comes last), empty arguments
  are skipped, and the joined path is normalised (empty and \<^verbatim>\<open>.\<close> segments dropped,
  \<^verbatim>\<open>..\<close> removing the segment before it, never above the root of an absolute path).
\<close>

fun split_slash :: "string \<Rightarrow> string \<Rightarrow> string list" where
  "split_slash seg [] = [seg]"
| "split_slash seg (c # cs) =
     (if c = CHR ''/'' then seg # split_slash [] cs else split_slash (seg @ [c]) cs)"

fun join_slash :: "string list \<Rightarrow> string" where
  "join_slash [] = []"
| "join_slash [s] = s"
| "join_slash (s # t # ss) = s @ ''/'' @ join_slash (t # ss)"

fun normalize_segments :: "bool \<Rightarrow> string list \<Rightarrow> string list \<Rightarrow> string list" where
  "normalize_segments allow_above acc [] = rev acc"
| "normalize_segments allow_above acc (s # ss) =
     (if s = [] \<or> s = ''.'' then normalize_segments allow_above acc ss
      else if s = ''..'' then
        (case acc of
           [] \<Rightarrow> normalize_segments allow_above (if allow_above then [s] else []) ss
         | a # acc' \<Rightarrow>
             if a = ''..'' then normalize_segments allow_above (s # acc) ss
             else normalize_segments allow_above acc' ss)
      else normalize_segments allow_above (s # acc) ss)"

fun collect_paths :: "string list \<Rightarrow> string \<Rightarrow> string \<times> bool" where
  "collect_paths [] resolved = (resolved, False)"
| "collect_paths (p # ps) resolved =
     (if p = [] then collect_paths ps resolved
      else if hd p = CHR ''/'' then (p @ ''/'' @ resolved, True)
      else collect_paths ps (p @ ''/'' @ resolved))"

definition posix_resolve :: "string \<Rightarrow> string list \<Rightarrow> string" where
  "posix_resolve cwd args =
     (case collect_paths (rev args @ [cwd]) [] of
        (resolved, absolute) \<Rightarrow>
          (let n = join_slash (normalize_segments (\<not> absolute) [] (split_slash [] resolved))
           in if absolute then CHR ''/'' # n else if n = [] then ''.'' else n))"

definition posix_path :: "string \<Rightarrow> path_module" where
  "posix_path cwd = \<lparr> resolve = posix_resolve cwd \<rparr>"

text \<open>
  A clean segment is a directory name: not empty, not \<^verbatim>\<open>.\<close> or \<^verbatim>\<open>..\<close>, and without a slash.
  An absolute directory without redundant parts is \<^verbatim>\<open>/\<close> followed by clean segments joined
  by slashes, which is what \<^verbatim>\<open>__dirname\<close> holds.
\<close>

definition clean_segment :: "string \<Rightarrow> bool" where
  "clean_segment s = (s \<noteq> [] \<and> s \<noteq> ''.'' \<and> s \<noteq> ''..'' \<and> CHR ''/'' \<notin> set s)"

section \<open>The proxy configuration (deploy/nginx/opencodelists)\<close>

subsection \<open>The file and its directives\<close>

text \<open>
  The file, line by line. It has no quoted strings and no comments, so a word is a maximal
  run of characters other than the blank, \<^verbatim>\<open>;\<close>, \<^verbatim>\<open>{\<close> and \<^verbatim>\<open>}\<close>.
\<close>

definition conf_lines :: "string list" where
  "conf_lines =
     [ ''upstream opencodelists {'',
       ''    server unix:/tmp/gunicorn-opencodelists.sock fail_timeout=0;'',
       ''    keepalive 60;'',
       ''}'',
       '''',
       '''',
       ''server {'',
       ''    listen 80;'',
       ''    listen [::]:80;'',
       ''    server_name codelists.opensafely.org;'',
       '''',
       ''    resolver 8.8.8.8 8.8.4.4 valid=300s;'',
       ''    resolver_timeout 5s;'',
       '''',
       ''    client_max_body_size 200M;'',
       '''',
       ''    location / {'',
       ''        access_log /var/log/nginx/opencodelists.access.log;'',
       ''        error_log /var/log/nginx/opencodelists.error.log;'',
       '''',
       ''        proxy_set_header X-Forwarded-For $proxy_add_x_forwarded_for;'',
       ''        proxy_set_header X-Forwarded-Proto $scheme;'',
       ''        proxy_set_header X-Real-IP $remote_addr;'',
       ''        proxy_set_header Host $http_host;'',
       '''',
       ''        proxy_pass http://opencodelists;'',
       ''    }'',
       ''}'' ]"

text \<open>
  A directive is a name with arguments, ended by \<^verbatim>\<open>;\<close> (simple) or followed by a block of
  directives in braces.
\<close>

datatype directive =
    Simple string "string list"
  | Block string "string list" "directive list"

datatype token = Word string | Semi | LBrace | RBrace

definition flush_word :: "string \<Rightarrow> token list \<Rightarrow> token list" where
  "flush_word w ts = (if w = [] then ts else ts @ [Word w])"

fun tokenize_from :: "string \<Rightarrow> token list \<Rightarrow> string \<Rightarrow> token list" where
  "tokenize_from w ts [] = flush_word w ts"
| "tokenize_from w ts (c # cs) =
     (if c = CHR '' '' then tokenize_from [] (flush_word w ts) cs
      else if c = CHR '';'' then tokenize_from [] (flush_word w ts @ [Semi]) cs
      else if c = CHR ''{'' then tokenize_from [] (flush_word w ts @ [LBrace]) cs
      else if c = CHR ''}'' then tokenize_from [] (flush_word w ts @ [RBrace]) cs
      else tokenize_from (w @ [c]) ts cs)"

definition tokenize :: "string list \<Rightarrow> token list" where
  "tokenize ls = concat (map (tokenize_from [] []) ls)"

text \<open>
  The parser keeps the words of the directive being read, the directives already read in
  the current block, and a stack of the enclosing blocks (header words and earlier
  siblings). A \<^verbatim>\<open>;\<close> or \<^verbatim>\<open>{\<close> without a name, a \<^verbatim>\<open>}\<close> after an unfinished directive or
  without an open block, and an unclosed block at the end are errors.
\<close>

type_synonym frame = "string list \<times> directive list"

fun parse_tokens ::
  "string list \<Rightarrow> directive list \<Rightarrow> frame list \<Rightarrow> token list \<Rightarrow> directive list option" where
  "parse_tokens cur sibs stack [] = (if cur = [] \<and> stack = [] then Some sibs else None)"
| "parse_tokens cur sibs stack (Word w # ts) = parse_tokens (cur @ [w]) sibs stack ts"
| "parse_tokens cur sibs stack (Semi # ts) =
     (case cur of
        [] \<Rightarrow> None
      | n # args \<Rightarrow> parse_tokens [] (sibs @ [Simple n args]) stack ts)"
| "parse_tokens cur sibs stack (LBrace # ts) =
     (case cur of
        [] \<Rightarrow> None
      | n # args \<Rightarrow> parse_tokens [] [] ((n # args, sibs) # stack) ts)"
| "parse_tokens cur sibs stack (RBrace # ts) =
     (if cur \<noteq> [] then None
      else case stack of
        [] \<Rightarrow> None
      | (hdr, outer) # stack' \<Rightarrow>
          parse_tokens [] (outer @ [Block (hd hdr) (tl hdr) sibs]) stack' ts)"

definition parse_conf :: "string list \<Rightarrow> directive list option" where
  "parse_conf ls = parse_tokens [] [] [] (tokenize ls)"

text \<open>The directives of the file; \<open>conf_parses\<close> below shows that they are its parse.\<close>

definition opencodelists_conf :: "directive list" where
  "opencodelists_conf =
     [ Block ''upstream'' [''opencodelists'']
         [ Simple ''server'' [''unix:/tmp/gunicorn-opencodelists.sock'', ''fail_timeout=0''],
           Simple ''keepalive'' [''60''] ],
       Block ''server'' []
         [ Simple ''listen'' [''80''],
           Simple ''listen'' [''[::]:80''],
           Simple ''server_name'' [''codelists.opensafely.org''],
           Simple ''resolver'' [''8.8.8.8'', ''8.8.4.4'', ''valid=300s''],
           Simple ''resolver_timeout'' [''5s''],
           Simple ''client_max_body_size'' [''200M''],
           Block ''location'' [''/'']
             [ Simple ''access_log'' [''/var/log/nginx/opencodelists.access.log''],
               Simple ''error_log'' [''/var/log/nginx/opencodelists.error.log''],
               Simple ''proxy_set_header'' [''X-Forwarded-For'', ''$proxy_add_x_forwarded_for''],
               Simple ''proxy_set_header'' [''X-Forwarded-Proto'', ''$scheme''],
               Simple ''proxy_set_header'' [''X-Real-IP'', ''$remote_addr''],
               Simple ''proxy_set_header'' [''Host'', ''$http_host''],
               Simple ''proxy_pass'' [''http://opencodelists''] ] ] ]"

subsection \<open>Looking directives up\<close>

text \<open>
  \<open>simple_args n ds\<close> are the argument lists of the simple directives named \<open>n\<close> directly
  in \<open>ds\<close>, \<open>blocks n ds\<close> the arguments and bodies of the blocks named \<open>n\<close>, and
  \<open>everywhere ds\<close> lists the directives of every nesting depth.
\<close>

fun simple_args :: "string \<Rightarrow> directive list \<Rightarrow> string list list" where
  "simple_args n [] = []"
| "simple_args n (Simple m args # ds) =
     (if m = n then args # simple_args n ds else simple_args n ds)"
| "simple_args n (Block m args body # ds) = simple_args n ds"

fun blocks :: "string \<Rightarrow> directive list \<Rightarrow> (string list \<times> directive list) list" where
  "blocks n [] = []"
| "blocks n (Simple m args # ds) = blocks n ds"
| "blocks n (Block m args body # ds) =
     (if m = n then (args, body) # blocks n ds else blocks n ds)"

fun flatten :: "directive \<Rightarrow> directive list" where
  "flatten (Simple n args) = [Simple n args]"
| "flatten (Block n args body) = Block n args [] # concat (map flatten body)"

definition everywhere :: "directive list \<Rightarrow> directive list" where
  "everywhere ds = concat (map flatten ds)"

definition single_arg :: "string \<Rightarrow> directive list \<Rightarrow> string option" where
  "single_arg n ds = (case simple_args n ds of [[a]] \<Rightarrow> Some a | _ \<Rightarrow> None)"

definition server_blocks :: "directive list \<Rightarrow> directive list list" where
  "server_blocks conf = map snd (blocks ''server'' conf)"

subsection \<open>Numbers, times and sizes\<close>

text \<open>
  Argument values are read as the consuming server reads them: a decimal number, then an
  optional unit. Times are in seconds (\<^verbatim>\<open>s\<close> seconds, \<^verbatim>\<open>m\<close> minutes, \<^verbatim>\<open>h\<close> hours, \<^verbatim>\<open>d\<close> days,
  \<^verbatim>\<open>w\<close> weeks, \<^verbatim>\<open>M\<close> months of 30 days, \<^verbatim>\<open>y\<close> years of 365 days; no unit means seconds).
  Sizes are in bytes, and their units are binary: \<^verbatim>\<open>k\<close>/\<^verbatim>\<open>K\<close> is 1024 bytes,
  \<^verbatim>\<open>m\<close>/\<^verbatim>\<open>M\<close> is 1024 * 1024 and \<^verbatim>\<open>g\<close>/\<^verbatim>\<open>G\<close> is 1024 * 1024 * 1024. Anything else is
  an error.
\<close>

definition is_digit :: "char \<Rightarrow> bool" where
  "is_digit c = (c \<in> set ''0123456789'')"

definition digit_val :: "char \<Rightarrow> nat" where
  "digit_val c = of_char c - of_char CHR ''0''"

definition atoi :: "string \<Rightarrow> nat option" where
  "atoi s =
     (if s \<noteq> [] \<and> list_all is_digit s
      then Some (foldl (\<lambda>n c. 10 * n + digit_val c) 0 s)
      else None)"

definition time_unit :: "string \<Rightarrow> nat option" where
  "time_unit u =
     (if u = [] \<or> u = ''s'' then Some 1
      else if u = ''m'' then Some 60
      else if u = ''h'' then Some (60 * 60)
      else if u = ''d'' then Some (60 * 60 * 24)
      else if u = ''w'' then Some (60 * 60 * 24 * 7)
      else if u = ''M'' then Some (60 * 60 * 24 * 30)
      else if u = ''y'' then Some (60 * 60 * 24 * 365)
      else None)"

definition parse_time :: "string \<Rightarrow> nat option" where
  "parse_time s =
     (case atoi (takeWhile is_digit s) of
        None \<Rightarrow> None
      | Some n \<Rightarrow>
          (case time_unit (dropWhile is_digit s) of
             None \<Rightarrow> None
           | Some u \<Rightarrow> Some (n * u)))"

definition size_unit :: "string \<Rightarrow> nat option" where
  "size_unit u =
     (if u = [] then Some 1
      else if u = ''K'' \<or> u = ''k'' then Some 1024
      else if u = ''M'' \<or> u = ''m'' then Some (1024 * 1024)
      else if u = ''G'' \<or> u = ''g'' then Some (1024 * 1024 * 1024)
      else None)"

definition parse_size :: "string \<Rightarrow> nat option" where
  "parse_size s =
     (case atoi (takeWhile is_digit s) of
        None \<Rightarrow> None
      | Some n \<Rightarrow>
          (case size_unit (dropWhile is_digit s) of
             None \<Rightarrow> None
           | Some u \<Rightarrow> Some (n * u)))"

text \<open>The value of a \<^verbatim>\<open>key=value\<close> parameter, if the argument is one for \<open>key\<close>.\<close>

definition param_value :: "string \<Rightarrow> string \<Rightarrow> string option" where
  "param_value key arg =
     (if prefix (key @ ''='') arg then Some (drop (length key + 1) arg) else None)"

subsection \<open>The server block\<close>

text \<open>
  A \<^verbatim>\<open>listen\<close> address is a port alone (every IPv4 address, written \<^verbatim>\<open>*\<close>), an
  \<^verbatim>\<open>address:port\<close> pair, or an IPv6 address in brackets with an optional port; the
  port defaults to 80.
\<close>

datatype listen_socket = Inet string nat | Inet6 string nat

definition parse_listen :: "string \<Rightarrow> listen_socket option" where
  "parse_listen a =
     (if prefix ''['' a then
        (let h = takeWhile (\<lambda>c. c \<noteq> CHR '']'') (tl a);
             r = dropWhile (\<lambda>c. c \<noteq> CHR '']'') (tl a)
         in if r = '']'' then Some (Inet6 h 80)
            else if prefix '']:'' r then map_option (Inet6 h) (atoi (drop 2 r))
            else None)
      else if CHR '':'' \<in> set a then
        map_option (Inet (takeWhile (\<lambda>c. c \<noteq> CHR '':'') a))
          (atoi (tl (dropWhile (\<lambda>c. c \<noteq> CHR '':'') a)))
      else (case atoi a of Some p \<Rightarrow> Some (Inet ''*'' p) | None \<Rightarrow> Some (Inet a 80)))"

definition listen_sockets :: "directive list \<Rightarrow> listen_socket option list" where
  "listen_sockets srv =
     map (\<lambda>args. case args of [] \<Rightarrow> None | a # _ \<Rightarrow> parse_listen a)
       (simple_args ''listen'' srv)"

definition server_names :: "directive list \<Rightarrow> string list" where
  "server_names srv = concat (simple_args ''server_name'' srv)"

definition client_max_body_size :: "directive list \<Rightarrow> nat option" where
  "client_max_body_size srv =
     (case single_arg ''client_max_body_size'' srv of None \<Rightarrow> None | Some a \<Rightarrow> parse_size a)"

text \<open>
  The arguments of \<^verbatim>\<open>resolver\<close> are name server addresses and the parameter \<^verbatim>\<open>valid=time\<close>;
  at least one address is required.
\<close>

record resolver =
  nameservers :: "string list"
  valid :: "nat option"

fun resolver_args :: "string list \<Rightarrow> resolver \<Rightarrow> resolver option" where
  "resolver_args [] r = (if nameservers r = [] then None else Some r)"
| "resolver_args (a # as) r =
     (case param_value ''valid'' a of
        Some v \<Rightarrow>
          (case parse_time v of
             None \<Rightarrow> None
           | Some t \<Rightarrow> resolver_args as (r\<lparr>valid := Some t\<rparr>))
      | None \<Rightarrow> resolver_args as (r\<lparr>nameservers := nameservers r @ [a]\<rparr>))"

definition server_resolver :: "directive list \<Rightarrow> resolver option" where
  "server_resolver srv =
     (case simple_args ''resolver'' srv of
        [args] \<Rightarrow> resolver_args args \<lparr>nameservers = [], valid = None\<rparr>
      | _ \<Rightarrow> None)"

definition resolver_timeout :: "directive list \<Rightarrow> nat option" where
  "resolver_timeout srv =
     (case single_arg ''resolver_timeout'' srv of None \<Rightarrow> None | Some a \<Rightarrow> parse_time a)"

subsection \<open>Upstream groups\<close>

text \<open>
  An upstream block has one argument, its name. Each \<^verbatim>\<open>server\<close> in it has an address
  (a Unix domain socket when it starts with \<^verbatim>\<open>unix:\<close>) and parameters, of which
  \<^verbatim>\<open>fail_timeout=time\<close> is read (10 seconds when absent); \<^verbatim>\<open>keepalive\<close> gives the number of
  idle connections kept open.
\<close>

datatype sockaddr = UnixSocket string | InetAddr string

record upstream_server =
  address :: sockaddr
  fail_timeout :: nat

record upstream_group =
  group_name :: string
  servers :: "upstream_server list"
  keepalive :: "nat option"

definition parse_sockaddr :: "string \<Rightarrow> sockaddr" where
  "parse_sockaddr a = (if prefix ''unix:'' a then UnixSocket (drop 5 a) else InetAddr a)"

fun server_params :: "string list \<Rightarrow> upstream_server \<Rightarrow> upstream_server option" where
  "server_params [] s = Some s"
| "server_params (p # ps) s =
     (case param_value ''fail_timeout'' p of
        None \<Rightarrow> None
      | Some v \<Rightarrow>
          (case parse_time v of
             None \<Rightarrow> None
           | Some t \<Rightarrow> server_params ps (s\<lparr>fail_timeout := t\<rparr>)))"

definition parse_upstream_server :: "string list \<Rightarrow> upstream_server option" where
  "parse_upstream_server args =
     (case args of
        [] \<Rightarrow> None
      | a # ps \<Rightarrow> server_params ps \<lparr>address = parse_sockaddr a, fail_timeout = 10\<rparr>)"

definition parse_upstream :: "string list \<times> directive list \<Rightarrow> upstream_group option" where
  "parse_upstream blk =
     (case blk of
        ([n], body) \<Rightarrow>
          (case those (map parse_upstream_server (simple_args ''server'' body)) of
             None \<Rightarrow> None
           | Some ss \<Rightarrow>
               (case simple_args ''keepalive'' body of
                  [] \<Rightarrow> Some \<lparr>group_name = n, servers = ss, keepalive = None\<rparr>
                | [[k]] \<Rightarrow>
                    map_option (\<lambda>c. \<lparr>group_name = n, servers = ss, keepalive = Some c\<rparr>) (atoi k)
                | _ \<Rightarrow> None))
      | _ \<Rightarrow> None)"

definition upstream_groups :: "directive list \<Rightarrow> upstream_group option list" where
  "upstream_groups conf = map parse_upstream (blocks ''upstream'' conf)"

subsection \<open>Locations, forwarded headers and the pass target\<close>

text \<open>
  A request carries what the four variables of the file read: its URI, its scheme, the
  address of the client, the \<^verbatim>\<open>Host\<close> header it sent, if any, and the \<^verbatim>\<open>X-Forwarded-For\<close>
  header, if any. A variable of a header the request does not carry is the empty string.
  \<^verbatim>\<open>$proxy_add_x_forwarded_for\<close> is the received \<^verbatim>\<open>X-Forwarded-For\<close> chain with the client
  address appended after a comma, or the client address alone. A header value is a single
  variable or a text without variables.
\<close>

datatype url_scheme = Http | Https

fun scheme_name :: "url_scheme \<Rightarrow> string" where
  "scheme_name Http = ''http''"
| "scheme_name Https = ''https''"

record request =
  uri :: string
  scheme :: url_scheme
  remote_addr :: string
  http_host :: "string option"
  http_x_forwarded_for :: "string option"

definition variable :: "request \<Rightarrow> string \<Rightarrow> string option" where
  "variable rq v =
     (if v = ''remote_addr'' then Some (remote_addr rq)
      else if v = ''scheme'' then Some (scheme_name (scheme rq))
      else if v = ''http_host'' then
        Some (case http_host rq of None \<Rightarrow> [] | Some h \<Rightarrow> h)
      else if v = ''proxy_add_x_forwarded_for'' then
        Some (case http_x_forwarded_for rq of
                None \<Rightarrow> remote_addr rq
              | Some chain \<Rightarrow> chain @ '', '' @ remote_addr rq)
      else None)"

definition header_value :: "request \<Rightarrow> string \<Rightarrow> string option" where
  "header_value rq v =
     (case v of
        [] \<Rightarrow> Some []
      | c # name \<Rightarrow>
          if c = CHR ''$'' then variable rq name
          else if CHR ''$'' \<in> set name then None
          else Some v)"

definition proxy_set_headers :: "directive list \<Rightarrow> (string \<times> string) option list" where
  "proxy_set_headers loc =
     map (\<lambda>args. case args of [h, v] \<Rightarrow> Some (h, v) | _ \<Rightarrow> None)
       (simple_args ''proxy_set_header'' loc)"

text \<open>
  The fields passed to the upstream for a request, in the order of the directives. A field
  whose value is the empty string for this request is not passed at all. \<open>None\<close> stands
  for a directive that cannot be read.
\<close>

fun forwarded_header :: "request \<Rightarrow> (string \<times> string) option \<Rightarrow> (string \<times> string) option list" where
  "forwarded_header rq None = [None]"
| "forwarded_header rq (Some (h, v)) =
     (case header_value rq v of
        None \<Rightarrow> [None]
      | Some x \<Rightarrow> if x = [] then [] else [Some (h, x)])"

definition forwarded_headers :: "request \<Rightarrow> directive list \<Rightarrow> (string \<times> string) option list" where
  "forwarded_headers rq loc = concat (map (forwarded_header rq) (proxy_set_headers loc))"

text \<open>
  Only prefix locations (one argument, no modifier) are read. The location of a request is
  the one with the longest prefix of the URI, the first of them on a tie.
\<close>

fun select_location ::
  "string \<Rightarrow> (string list \<times> directive list) list \<Rightarrow> (string \<times> directive list) option
     \<Rightarrow> (string \<times> directive list) option" where
  "select_location u [] best = best"
| "select_location u ((args, body) # ls) best =
     (case args of
        [p] \<Rightarrow>
          if prefix p u \<and> (case best of None \<Rightarrow> True | Some (q, _) \<Rightarrow> length q < length p)
          then select_location u ls (Some (p, body))
          else select_location u ls best
      | _ \<Rightarrow> select_location u ls best)"

definition location_for :: "directive list \<Rightarrow> string \<Rightarrow> (string \<times> directive list) option" where
  "location_for srv u = select_location u (blocks ''location'' srv) None"

definition request_headers ::
  "directive list \<Rightarrow> request \<Rightarrow> (string \<times> string) option list option" where
  "request_headers srv rq =
     (case location_for srv (uri rq) of
        None \<Rightarrow> None
      | Some (p, body) \<Rightarrow> Some (forwarded_headers rq body))"

text \<open>
  The host of a \<^verbatim>\<open>proxy_pass\<close> URL is what follows the scheme, up to a \<^verbatim>\<open>:\<close> or \<^verbatim>\<open>/\<close>. When
  it is the name of a declared upstream group the request goes to that group's servers;
  otherwise it is a host name to be resolved.
\<close>

definition proxy_pass_host :: "string \<Rightarrow> string option" where
  "proxy_pass_host url =
     (if prefix ''http://'' url
        then Some (takeWhile (\<lambda>c. c \<noteq> CHR ''/'' \<and> c \<noteq> CHR '':'') (drop 7 url))
      else if prefix ''https://'' url
        then Some (takeWhile (\<lambda>c. c \<noteq> CHR ''/'' \<and> c \<noteq> CHR '':'') (drop 8 url))
      else None)"

datatype proxy_target = ToUpstream upstream_group | ToHost string

definition proxy_target :: "directive list \<Rightarrow> string \<Rightarrow> proxy_target option" where
  "proxy_target conf url =
     (case proxy_pass_host url of
        None \<Rightarrow> None
      | Some h \<Rightarrow>
          (case those (upstream_groups conf) of
             None \<Rightarrow> None
           | Some gs \<Rightarrow>
               (case find (\<lambda>g. group_name g = h) gs of
                  Some g \<Rightarrow> Some (ToUpstream g)
                | None \<Rightarrow> Some (ToHost h))))"

definition pass_target :: "directive list \<Rightarrow> directive list \<Rightarrow> string \<Rightarrow> proxy_target option" where
  "pass_target conf srv u =
     (case location_for srv u of
        None \<Rightarrow> None
      | Some (p, body) \<Rightarrow>
          (case single_arg ''proxy_pass'' body of
             None \<Rightarrow> None
           | Some url \<Rightarrow> proxy_target conf url))"

section \<open>Properties of the bundler configuration\<close>

lemma match_here_literal_end:
  "match_here (map Lit w @ [EndOfInput]) s \<longleftrightarrow> s = w"
proof (induction w arbitrary: s)
  case Nil
  show ?case by simp
next
  case (Cons c w)
  show ?case by (cases s) (auto simp: Cons.IH)
qed

lemma regexp_test_suffix:
  "regexp_test r s \<longleftrightarrow> (\<exists>t. suffix t s \<and> match_here r t)"
proof (induction s)
  case Nil
  show ?case by simp
next
  case (Cons x xs)
  show ?case by (auto simp: Cons.IH suffix_Cons)
qed

lemma jsx_test:
  "regexp_test [Lit CHR ''.'', Lit CHR ''j'', Lit CHR ''s'', Lit CHR ''x'', EndOfInput] p
     \<longleftrightarrow> suffix ''.jsx'' p"
proof -
  have "[Lit CHR ''.'', Lit CHR ''j'', Lit CHR ''s'', Lit CHR ''x'', EndOfInput]
          = map Lit ''.jsx'' @ [EndOfInput]" by simp
  then show ?thesis
    by (simp only: regexp_test_suffix match_here_literal_end) auto
qed

text \<open>
  C1. The configuration has a single module rule. For every resource path, that rule
  applies if and only if the path ends with the four characters \<^verbatim>\<open>.jsx\<close>; the loaders of
  such a path are exactly \<^verbatim>\<open>babel-loader\<close>, and a path with another ending gets no loader.
\<close>

theorem jsx_rule_iff_suffix:
  "length (rules (module_opts (module_exports P d))) = 1 \<and>
   (matching_rules (module_exports P d) p \<noteq> [] \<longleftrightarrow> suffix ''.jsx'' p) \<and>
   loaders_for (module_exports P d) p = (if suffix ''.jsx'' p then [''babel-loader''] else [])"
  by (simp add: loaders_for_def matching_rules_def rule_applies_def module_exports_def jsx_test)

theorem jsx_rule_iff_suffix_witness:
  "loaders_for (module_exports (posix_path ''/'') ''/srv/app'') ''/srv/app/static/src/js/tree/index.jsx''
     = [''babel-loader''] \<and>
   loaders_for (module_exports (posix_path ''/'') ''/srv/app'') ''/srv/app/static/src/js/codelist.js''
     = []"
  using jsx_rule_iff_suffix [of "posix_path ''/''" "''/srv/app''" "''/srv/app/static/src/js/tree/index.jsx''"]
    jsx_rule_iff_suffix [of "posix_path ''/''" "''/srv/app''" "''/srv/app/static/src/js/codelist.js''"]
  by (simp add: suffix_def)

text \<open>
  C6. The entry object maps exactly four bundle names: \<^verbatim>\<open>builder\<close>, \<^verbatim>\<open>codelist\<close>,
  \<^verbatim>\<open>codelist-version\<close> and \<^verbatim>\<open>tree\<close>, each to its source file; every other name is unmapped.
\<close>

theorem entry_exactly_four:
  "bundle_names (module_exports P d) = [''builder'', ''codelist'', ''codelist-version'', ''tree''] \<and>
   entry_source (module_exports P d) ''builder'' = Some ''./static/src/js/builder/index.jsx'' \<and>
   entry_source (module_exports P d) ''codelist'' = Some ''./static/src/js/codelist.js'' \<and>
   entry_source (module_exports P d) ''codelist-version'' = Some ''./static/src/js/codelist-version.js'' \<and>
   entry_source (module_exports P d) ''tree'' = Some ''./static/src/js/tree/index.jsx'' \<and>
   (entry_source (module_exports P d) n = None
      \<longleftrightarrow> n \<notin> {''builder'', ''codelist'', ''codelist-version'', ''tree''})"
  by (simp add: bundle_names_def entry_source_def module_exports_def)

subsection \<open>Resolution under an absolute directory\<close>

lemma split_slash_segment:
  "CHR ''/'' \<notin> set s \<Longrightarrow>
     split_slash seg (s @ CHR ''/'' # rest) = (seg @ s) # split_slash [] rest"
  by (induction s arbitrary: seg) auto

lemma split_slash_join:
  "segs \<noteq> [] \<Longrightarrow> list_all clean_segment segs \<Longrightarrow>
     split_slash [] (join_slash segs @ CHR ''/'' # rest) = segs @ split_slash [] rest"
proof (induction segs rule: join_slash.induct)
  case 1
  then show ?case by simp
next
  case (2 s)
  then show ?case by (simp add: clean_segment_def split_slash_segment)
next
  case (3 s t ss)
  then show ?case by (simp add: clean_segment_def split_slash_segment)
qed

lemma normalize_clean:
  "list_all clean_segment segs \<Longrightarrow>
     normalize_segments a acc (segs @ rest) = normalize_segments a (rev segs @ acc) rest"
  by (induction segs arbitrary: acc) (auto simp: clean_segment_def)

lemma split_tail: "split_slash [] ''static/dist/js/'' = [''static'', ''dist'', ''js'', '''']"
  by simp

lemma posix_resolve_under_dirname:
  assumes "list_all clean_segment segs"
  shows "posix_resolve cwd [CHR ''/'' # join_slash segs, ''static'', ''dist'', ''js'']
           = CHR ''/'' # join_slash (segs @ [''static'', ''dist'', ''js''])"
proof -
  have c: "collect_paths (rev [CHR ''/'' # join_slash segs, ''static'', ''dist'', ''js''] @ [cwd]) []
             = (CHR ''/'' # join_slash segs @ CHR ''/'' # ''static/dist/js/'', True)"
    by simp
  have n: "normalize_segments False []
              (split_slash [] (CHR ''/'' # join_slash segs @ CHR ''/'' # ''static/dist/js/''))
             = segs @ [''static'', ''dist'', ''js'']"
  proof (cases "segs = []")
    case True
    then show ?thesis by simp
  next
    case False
    have "split_slash [] (CHR ''/'' # join_slash segs @ CHR ''/'' # ''static/dist/js/'')
            = [] # segs @ [''static'', ''dist'', ''js'', '''']"
      using split_slash_join [OF False assms, of "''static/dist/js/''"]
      by (simp only: split_slash.simps split_tail) simp
    then show ?thesis
      using normalize_clean [OF assms, of False "[]" "[''static'', ''dist'', ''js'', '''']"]
      by simp
  qed
  show ?thesis
    unfolding posix_resolve_def c by (simp only: prod.case Let_def not_True_eq_False n) simp
qed

text \<open>
  C7. The output declares the filename pattern \<^verbatim>\<open>[name].bundle.js\<close>, and its directory is
  what the path module's \<^verbatim>\<open>resolve\<close> returns for the configuration file's directory
  followed by the segments \<^verbatim>\<open>static\<close>, \<^verbatim>\<open>dist\<close>, \<^verbatim>\<open>js\<close>. With the POSIX path module and the
  configuration file in the absolute directory of the clean segments \<open>segs\<close>, that is the
  absolute directory \<open>segs\<close>, \<^verbatim>\<open>static\<close>, \<^verbatim>\<open>dist\<close>, \<^verbatim>\<open>js\<close>, whatever the working directory.
\<close>

theorem output_declaration:
  "filename (output_opts (module_exports P d)) = ''[name].bundle.js'' \<and>
   path (output_opts (module_exports P d)) = resolve P [d, ''static'', ''dist'', ''js''] \<and>
   (list_all clean_segment segs \<longrightarrow>
      path (output_opts (module_exports (posix_path cwd) (CHR ''/'' # join_slash segs)))
        = CHR ''/'' # join_slash (segs @ [''static'', ''dist'', ''js'']))"
  by (simp add: module_exports_def posix_path_def posix_resolve_under_dirname)

theorem output_declaration_witness:
  "list_all clean_segment [''srv'', ''app''] \<and>
   filename (output_opts (module_exports (posix_path ''/home/user'') ''/srv/app''))
     = ''[name].bundle.js'' \<and>
   path (output_opts (module_exports (posix_path ''/home/user'') ''/srv/app''))
     = ''/srv/app/static/dist/js''"
proof -
  have h: "list_all clean_segment [''srv'', ''app'']"
    by (simp add: clean_segment_def)
  have d: "CHR ''/'' # join_slash [''srv'', ''app''] = ''/srv/app''"
    by simp
  have j: "CHR ''/'' # join_slash ([''srv'', ''app''] @ [''static'', ''dist'', ''js''])
             = ''/srv/app/static/dist/js''"
    by simp
  note t = output_declaration
    [of "posix_path ''/home/user''" "''/srv/app''" "[''srv'', ''app'']" "''/home/user''"]
  from t have f: "filename (output_opts (module_exports (posix_path ''/home/user'') ''/srv/app''))
      = ''[name].bundle.js''"
    by (rule conjunct1)
  from t h have "path (output_opts (module_exports (posix_path ''/home/user'')
      (CHR ''/'' # join_slash [''srv'', ''app''])))
        = CHR ''/'' # join_slash ([''srv'', ''app''] @ [''static'', ''dist'', ''js''])"
    by blast
  then have "path (output_opts (module_exports (posix_path ''/home/user'') ''/srv/app''))
     = ''/srv/app/static/dist/js''"
    by (simp only: d j)
  with h f show ?thesis by blast
qed

text \<open>
  C8. The list of extensions tried in module resolution is \<^verbatim>\<open>.js\<close> then \<^verbatim>\<open>.jsx\<close>, and
  nothing else.
\<close>

theorem resolve_extensions_exact:
  "extensions (resolve_opts (module_exports P d)) = [''.js'', ''.jsx''] \<and>
   extensions (resolve_opts (module_exports P d)) ! 0 = ''.js'' \<and>
   set (extensions (resolve_opts (module_exports P d))) = {''.js'', ''.jsx''}"
  by (simp add: module_exports_def)

section \<open>Properties of the proxy configuration\<close>

text \<open>The directive tree is the parse of the file's text.\<close>

lemma conf_parses: "parse_conf conf_lines = Some opencodelists_conf"
  by (simp add: parse_conf_def conf_lines_def tokenize_def flush_word_def opencodelists_conf_def)

lemmas value_defs = atoi_def is_digit_def digit_val_def parse_time_def time_unit_def
  parse_size_def size_unit_def param_value_def single_arg_def

lemma upstream_groups_conf:
  "upstream_groups opencodelists_conf =
     [Some \<lparr>group_name = ''opencodelists'',
             servers = [\<lparr>address = UnixSocket ''/tmp/gunicorn-opencodelists.sock'',
                         fail_timeout = 0\<rparr>],
             keepalive = Some 60\<rparr>]"
  by (simp add: upstream_groups_def opencodelists_conf_def parse_upstream_def
      parse_upstream_server_def parse_sockaddr_def value_defs)

lemma proxy_target_conf:
  "proxy_target opencodelists_conf ''http://opencodelists'' =
     Some (ToUpstream
       \<lparr>group_name = ''opencodelists'',
         servers = [\<lparr>address = UnixSocket ''/tmp/gunicorn-opencodelists.sock'',
                     fail_timeout = 0\<rparr>],
         keepalive = Some 60\<rparr>)"
  by (simp add: proxy_target_def proxy_pass_host_def upstream_groups_conf)

lemma pass_target_root:
  "map (\<lambda>srv. pass_target C srv (CHR ''/'' # rest)) (server_blocks opencodelists_conf) =
     [proxy_target C ''http://opencodelists'']"
  by (simp add: pass_target_def location_for_def server_blocks_def single_arg_def
      opencodelists_conf_def)

text \<open>
  C2. The one server block listens on port 80 of every IPv4 address (\<^verbatim>\<open>listen 80\<close>) and of
  every IPv6 address (\<^verbatim>\<open>listen [::]:80\<close>), and its only server name is
  \<^verbatim>\<open>codelists.opensafely.org\<close>.
\<close>

theorem listen_80_server_name:
  "map listen_sockets (server_blocks opencodelists_conf) =
     [[Some (Inet ''*'' 80), Some (Inet6 ''::'' 80)]] \<and>
   map (simple_args ''listen'') (server_blocks opencodelists_conf) = [[[''80''], [''[::]:80'']]] \<and>
   map server_names (server_blocks opencodelists_conf) = [[''codelists.opensafely.org'']]"
  by (simp add: server_blocks_def opencodelists_conf_def listen_sockets_def parse_listen_def
      server_names_def value_defs)

text \<open>
  C3, as stated: the request body limit \<^verbatim>\<open>200M\<close> is 200,000,000 bytes. It is not: the
  server reads the unit \<^verbatim>\<open>M\<close> as 1024 * 1024 bytes.
\<close>

theorem body_size_not_200000000:
  "map client_max_body_size (server_blocks opencodelists_conf) \<noteq> [Some 200000000]"
  by (simp add: server_blocks_def opencodelists_conf_def client_max_body_size_def value_defs)

text \<open>
  C3, amended: the request body limit of the one server block is \<^verbatim>\<open>200M\<close>, which the
  server reads as 200 * 1024 * 1024 = 209,715,200 bytes.
\<close>

theorem body_size_209715200:
  "map (single_arg ''client_max_body_size'') (server_blocks opencodelists_conf) = [Some ''200M''] \<and>
   map client_max_body_size (server_blocks opencodelists_conf) = [Some (200 * 1024 * 1024)] \<and>
   map client_max_body_size (server_blocks opencodelists_conf) = [Some 209715200]"
  by (simp add: server_blocks_def opencodelists_conf_def client_max_body_size_def value_defs)

lemma scheme_name_not_empty: "scheme_name s \<noteq> []"
  by (cases s) simp_all

text \<open>
  C4, as stated: every request under \<^verbatim>\<open>location /\<close> is passed on with exactly four fields set
  by the file, \<^verbatim>\<open>Host\<close> among them. It is not so for a request that carries no \<^verbatim>\<open>Host\<close>
  header: \<^verbatim>\<open>$http_host\<close> is empty there, a field with an empty value is not passed, and three
  fields remain.
\<close>

theorem hostless_request_three_headers:
  "map (\<lambda>srv. request_headers srv
          \<lparr>uri = ''/'', scheme = Http, remote_addr = ''203.0.113.7'',
            http_host = None, http_x_forwarded_for = None\<rparr>)
       (server_blocks opencodelists_conf) =
     [Some [ Some (''X-Forwarded-For'', ''203.0.113.7''),
             Some (''X-Forwarded-Proto'', ''http''),
             Some (''X-Real-IP'', ''203.0.113.7'') ]] \<and>
   map (\<lambda>srv. map_option length (request_headers srv
          \<lparr>uri = ''/'', scheme = Http, remote_addr = ''203.0.113.7'',
            http_host = None, http_x_forwarded_for = None\<rparr>))
       (server_blocks opencodelists_conf) \<noteq> [Some 4]"
  by (simp add: server_blocks_def opencodelists_conf_def request_headers_def location_for_def
      forwarded_headers_def proxy_set_headers_def header_value_def variable_def)

text \<open>
  C4, amended. The file has four \<^verbatim>\<open>proxy_set_header\<close> directives, all in \<^verbatim>\<open>location /\<close>:
  \<^verbatim>\<open>X-Forwarded-For\<close> from \<^verbatim>\<open>$proxy_add_x_forwarded_for\<close>, \<^verbatim>\<open>X-Forwarded-Proto\<close> from \<^verbatim>\<open>$scheme\<close>,
  \<^verbatim>\<open>X-Real-IP\<close> from \<^verbatim>\<open>$remote_addr\<close> and \<^verbatim>\<open>Host\<close> from \<^verbatim>\<open>$http_host\<close>, and no other. For every
  request whose URI starts with \<^verbatim>\<open>/\<close>, the fields passed on are those of the four whose
  value is not empty, in this order. So a request with a client address and a non-empty
  \<^verbatim>\<open>Host\<close> header is passed on with exactly the four (the chain of client addresses, the
  scheme, the client address, the host the client sent), and for a request without a
  \<^verbatim>\<open>Host\<close> header no \<^verbatim>\<open>Host\<close> field is passed.
\<close>

theorem forwarded_headers_of_request:
  "simple_args ''proxy_set_header'' (everywhere opencodelists_conf) =
     [ [''X-Forwarded-For'', ''$proxy_add_x_forwarded_for''],
       [''X-Forwarded-Proto'', ''$scheme''],
       [''X-Real-IP'', ''$remote_addr''],
       [''Host'', ''$http_host''] ] \<and>
   map (\<lambda>srv. request_headers srv (rq\<lparr>uri := CHR ''/'' # rest\<rparr>))
       (server_blocks opencodelists_conf) =
     [Some (map Some (filter (\<lambda>hv. snd hv \<noteq> [])
        [ (''X-Forwarded-For'',
           case http_x_forwarded_for rq of
             None \<Rightarrow> remote_addr rq
           | Some chain \<Rightarrow> chain @ '', '' @ remote_addr rq),
          (''X-Forwarded-Proto'', scheme_name (scheme rq)),
          (''X-Real-IP'', remote_addr rq),
          (''Host'', case http_host rq of None \<Rightarrow> [] | Some h \<Rightarrow> h) ]))] \<and>
   (remote_addr rq \<noteq> [] \<and> http_host rq = Some h \<and> h \<noteq> [] \<longrightarrow>
      map (\<lambda>srv. request_headers srv (rq\<lparr>uri := CHR ''/'' # rest\<rparr>))
          (server_blocks opencodelists_conf) =
        [Some [ Some (''X-Forwarded-For'',
                      case http_x_forwarded_for rq of
                        None \<Rightarrow> remote_addr rq
                      | Some chain \<Rightarrow> chain @ '', '' @ remote_addr rq),
                Some (''X-Forwarded-Proto'', scheme_name (scheme rq)),
                Some (''X-Real-IP'', remote_addr rq),
                Some (''Host'', h) ]]) \<and>
   (http_host rq = None \<longrightarrow>
      map (\<lambda>srv. map_option (filter (\<lambda>f. map_option fst f = Some ''Host''))
                   (request_headers srv (rq\<lparr>uri := CHR ''/'' # rest\<rparr>)))
          (server_blocks opencodelists_conf) = [Some []])"
  by (auto simp add: server_blocks_def opencodelists_conf_def request_headers_def
      location_for_def forwarded_headers_def proxy_set_headers_def header_value_def
      variable_def everywhere_def scheme_name_not_empty split: option.split)

theorem forwarded_headers_of_request_witness:
  "map (\<lambda>srv. request_headers srv
          \<lparr>uri = ''/codelist/'', scheme = Https, remote_addr = ''203.0.113.7'',
            http_host = Some ''codelists.opensafely.org'',
            http_x_forwarded_for = Some ''198.51.100.1''\<rparr>)
       (server_blocks opencodelists_conf) =
     [Some [ Some (''X-Forwarded-For'', ''198.51.100.1, 203.0.113.7''),
             Some (''X-Forwarded-Proto'', ''https''),
             Some (''X-Real-IP'', ''203.0.113.7''),
             Some (''Host'', ''codelists.opensafely.org'') ]] \<and>
   map (\<lambda>srv. map_option (filter (\<lambda>f. map_option fst f = Some ''Host''))
          (request_headers srv
             \<lparr>uri = ''/codelist/'', scheme = Http, remote_addr = ''203.0.113.7'',
               http_host = None, http_x_forwarded_for = None\<rparr>))
       (server_blocks opencodelists_conf) = [Some []]"
  using forwarded_headers_of_request
      [where rq = "\<lparr>uri = [], scheme = Https, remote_addr = ''203.0.113.7'',
             http_host = Some ''codelists.opensafely.org'',
             http_x_forwarded_for = Some ''198.51.100.1''\<rparr>"
         and rest = "''codelist/''" and h = "''codelists.opensafely.org''"]
    forwarded_headers_of_request
      [where rq = "\<lparr>uri = [], scheme = Http, remote_addr = ''203.0.113.7'',
             http_host = None, http_x_forwarded_for = None\<rparr>"
         and rest = "''codelist/''" and h = "[]"]
  by simp

text \<open>
  C5. The file declares one upstream group, \<^verbatim>\<open>opencodelists\<close>. It has one server, the Unix
  domain socket \<^verbatim>\<open>/tmp/gunicorn-opencodelists.sock\<close>, with a \<^verbatim>\<open>fail_timeout\<close> of 0 seconds, and
  a \<^verbatim>\<open>keepalive\<close> of 60 connections.
\<close>

theorem one_upstream_group:
  "map fst (blocks ''upstream'' (everywhere opencodelists_conf)) = [[''opencodelists'']] \<and>
   upstream_groups opencodelists_conf =
     [Some \<lparr>group_name = ''opencodelists'',
             servers = [\<lparr>address = UnixSocket ''/tmp/gunicorn-opencodelists.sock'',
                         fail_timeout = 0\<rparr>],
             keepalive = Some 60\<rparr>]"
  by (simp add: upstream_groups_conf) (simp add: everywhere_def opencodelists_conf_def)

text \<open>
  C9. The server block's resolver has the name servers 8.8.8.8 and 8.8.4.4 and keeps
  answers for 300 seconds; the resolver timeout is 5 seconds.
\<close>

theorem resolver_settings:
  "map server_resolver (server_blocks opencodelists_conf) =
     [Some \<lparr>nameservers = [''8.8.8.8'', ''8.8.4.4''], valid = Some 300\<rparr>] \<and>
   map resolver_timeout (server_blocks opencodelists_conf) = [Some 5]"
  by (simp add: server_blocks_def opencodelists_conf_def server_resolver_def
      resolver_timeout_def value_defs)

text \<open>
  C10. The only \<^verbatim>\<open>proxy_pass\<close> of the file names the host \<^verbatim>\<open>opencodelists\<close>, which is the
  name of the one declared upstream group; so every request whose URI starts with \<^verbatim>\<open>/\<close>
  is passed to that group, whose server is the Unix domain socket.
\<close>

theorem proxy_pass_names_upstream:
  "map (map proxy_pass_host) (simple_args ''proxy_pass'' (everywhere opencodelists_conf)) =
     [[Some ''opencodelists'']] \<and>
   map (map_option group_name) (upstream_groups opencodelists_conf) = [Some ''opencodelists''] \<and>
   map (\<lambda>srv. pass_target opencodelists_conf srv (CHR ''/'' # rest))
       (server_blocks opencodelists_conf) =
     [Some (ToUpstream
        \<lparr>group_name = ''opencodelists'',
          servers = [\<lparr>address = UnixSocket ''/tmp/gunicorn-opencodelists.sock'',
                      fail_timeout = 0\<rparr>],
          keepalive = Some 60\<rparr>)]"
  by (simp add: pass_target_root proxy_target_conf upstream_groups_conf)
     (simp add: everywhere_def opencodelists_conf_def proxy_pass_host_def)

end
